theory Spec2Isabelle
  imports Main "HOL-Library.Sublist"
begin

section \<open>Python strings and \<open>posixpath\<close>\<close>

text \<open>
  The handler of \<^verbatim>\<open>src/dock_prep/subprocess_handler.py\<close> works on path strings with
  \<^verbatim>\<open>str\<close> methods and \<^verbatim>\<open>os.path\<close> (POSIX flavour: the commands it builds are
  \<^verbatim>\<open>bash\<close> and \<^verbatim>\<open>conda\<close> command lines). The functions below follow the CPython
  library. Paths are ASCII strings; \<open>str_lower\<close> leaves every other byte unchanged.
\<close>

definition str_lower_char :: "char \<Rightarrow> char" where
  "str_lower_char c =
     (case map_of (zip ''ABCDEFGHIJKLMNOPQRSTUVWXYZ'' ''abcdefghijklmnopqrstuvwxyz'') c of
        None \<Rightarrow> c
      | Some l \<Rightarrow> l)"

definition str_lower :: "string \<Rightarrow> string" where
  "str_lower s = map str_lower_char s"

definition str_lstrip :: "char \<Rightarrow> string \<Rightarrow> string" where
  "str_lstrip c s = dropWhile (\<lambda>x. x = c) s"

definition str_rstrip :: "char \<Rightarrow> string \<Rightarrow> string" where
  "str_rstrip c s = rev (dropWhile (\<lambda>x. x = c) (rev s))"

text \<open>\<^verbatim>\<open>s.replace(old, new)\<close> for a non-empty \<open>old = o # os\<close>: the occurrences are
  replaced from the left and do not overlap. (An empty \<open>old\<close> does not occur in the
  handler; the model leaves the string unchanged there.)\<close>

fun str_replace :: "string \<Rightarrow> string \<Rightarrow> string \<Rightarrow> string" where
  "str_replace [] new s = s"
| "str_replace (a # as) new [] = []"
| "str_replace (a # as) new (c # cs) =
     (if prefix (a # as) (c # cs)
      then new @ str_replace (a # as) new (drop (length as) cs)
      else c # str_replace (a # as) new cs)"

text \<open>\<^verbatim>\<open>s.split(sep)\<close> for a one-character separator, and \<^verbatim>\<open>sep.join(parts)\<close>.\<close>

fun str_split :: "char \<Rightarrow> string \<Rightarrow> string list" where
  "str_split s [] = [[]]"
| "str_split s (c # cs) =
     (if c = s then [] # str_split s cs
      else (case str_split s cs of [] \<Rightarrow> [[c]] | x # xs \<Rightarrow> (c # x) # xs))"

fun str_join :: "string \<Rightarrow> string list \<Rightarrow> string" where
  "str_join s [] = []"
| "str_join s [x] = x"
| "str_join s (x # y # ys) = x @ s @ str_join s (y # ys)"

definition os_path_isabs :: "string \<Rightarrow> bool" where
  "os_path_isabs p = prefix ''/'' p"

text \<open>\<^verbatim>\<open>os.path.basename\<close>: what follows the last slash.\<close>

definition os_path_basename :: "string \<Rightarrow> string" where
  "os_path_basename p = rev (takeWhile (\<lambda>c. c \<noteq> CHR ''/'') (rev p))"

text \<open>\<^verbatim>\<open>os.path.dirname\<close>: the head up to the last slash, its trailing slashes stripped
  unless it consists of slashes only.\<close>

definition os_path_dirname :: "string \<Rightarrow> string" where
  "os_path_dirname p =
     (let head = rev (dropWhile (\<lambda>c. c \<noteq> CHR ''/'') (rev p)) in
      if head \<noteq> [] \<and> head \<noteq> replicate (length head) (CHR ''/'')
      then str_rstrip (CHR ''/'') head
      else head)"

text \<open>\<^verbatim>\<open>os.path.splitext\<close>: the extension starts at the last dot of the last path
  component, provided a character other than a dot stands before it in that component.\<close>

definition os_path_splitext :: "string \<Rightarrow> string \<times> string" where
  "os_path_splitext p =
     (let name = os_path_basename p in
      if CHR ''.'' \<in> set name then
        (let ext = CHR ''.'' # rev (takeWhile (\<lambda>c. c \<noteq> CHR ''.'') (rev name));
             stem = take (length name - length ext) name in
         if str_lstrip (CHR ''.'') stem \<noteq> []
         then (take (length p - length ext) p, ext)
         else (p, []))
      else (p, []))"

text \<open>\<^verbatim>\<open>os.path.join(a, *ps)\<close>: an absolute component restarts the path.\<close>

definition os_path_join :: "string \<Rightarrow> string list \<Rightarrow> string" where
  "os_path_join a ps =
     fold (\<lambda>b path.
             if prefix ''/'' b then b
             else if path = [] \<or> last path = CHR ''/'' then path @ b
             else path @ ''/'' @ b)
          ps a"

text \<open>\<^verbatim>\<open>os.path.normpath\<close>: empty and \<open>.\<close> components are dropped, \<open>..\<close> removes the
  component before it (or stays, at the start of a relative path); exactly two leading
  slashes are kept.\<close>

definition normpath_step :: "bool \<Rightarrow> string list \<Rightarrow> string \<Rightarrow> string list" where
  "normpath_step initial_slashes new_comps part =
     (if part = [] \<or> part = ''.'' then new_comps
      else if part \<noteq> ''..'' \<or> (\<not> initial_slashes \<and> new_comps = [])
              \<or> (new_comps \<noteq> [] \<and> last new_comps = ''..'')
           then new_comps @ [part]
      else if new_comps \<noteq> [] then butlast new_comps
      else new_comps)"

definition os_path_normpath :: "string \<Rightarrow> string" where
  "os_path_normpath path =
     (if path = [] then ''.''
      else
        (let initial_slashes =
               (if prefix ''/'' path
                then (if prefix ''//'' path \<and> \<not> prefix ''///'' path then 2 else 1)
                else (0::nat));
             comps = fold (\<lambda>part new_comps. normpath_step (initial_slashes \<noteq> 0) new_comps part)
                          (str_split (CHR ''/'') path) [];
             joined = replicate initial_slashes (CHR ''/'') @ str_join ''/'' comps
         in if joined = [] then ''.'' else joined))"

text \<open>The handler's own idiom for a file's extension (lines 162, 163 and 238):
  \<^verbatim>\<open>os.path.splitext(p)[1].lower().lstrip('.')\<close>.\<close>

definition file_ext :: "string \<Rightarrow> string" where
  "file_ext p = str_lstrip (CHR ''.'') (str_lower (snd (os_path_splitext p)))"

text \<open>A dict display \<^verbatim>\<open>{k1: v1, k2: v2, ...}\<close> stores its entries from left to right,
  so a key written twice keeps its last value.\<close>

definition dict_of :: "('k \<times> 'v) list \<Rightarrow> ('k \<rightharpoonup> 'v)" where
  "dict_of kvs = fold (\<lambda>kv m. m(fst kv \<mapsto> snd kv)) kvs Map.empty"

section \<open>The world the handler runs in\<close>

text \<open>
  Exceptions are values. The constructors are the Python exception classes the handler
  raises itself (\<open>FileNotFoundError\<close>, \<open>ValueError\<close>) or receives from the library calls
  it makes.
\<close>

datatype error =
    FileNotFoundError
  | NotADirectoryError
  | IsADirectoryError
  | TypeError
  | KeyError string
  | JSONDecodeError
  | ValueError
  | CalledProcessError int
  | TimeoutExpired
  | OSError

text \<open>How a child process ends: with an exit status, by running into the timeout, or
  not at all (the shell could not be started).\<close>

datatype proc_result = Exited int | TimedOut | LaunchFailed

text \<open>
  The state a call can observe and change: the regular files and the directories
  (normalised absolute paths; no symbolic links), the current working directory of the
  Python process, and the log of every \<^verbatim>\<open>subprocess.run\<close> call made so far, each entry
  the command line with the timeout it was given.
\<close>

record world =
  files :: "string set"
  dirs :: "string set"
  cwd :: string
  spawned :: "(string \<times> int option) list"

text \<open>
  What the handler cannot influence: the external programs, the environment variable
  \<^verbatim>\<open>CONDA_DEFAULT_ENV\<close>, and what \<^verbatim>\<open>json.load\<close> reads from a configuration file
  (\<open>None\<close>: the file is not valid JSON). An external program is any function from the
  command line, the timeout, the working directory and the regular files present to a
  result and the regular files it leaves behind; it creates and deletes files, not
  directories, and cannot change the working directory of its parent.
\<close>

record env =
  shell :: "string \<Rightarrow> int option \<Rightarrow> string \<Rightarrow> string set \<Rightarrow> proc_result \<times> string set"
  conda_default_env :: "string option"
  json_load :: "string \<Rightarrow> (string \<rightharpoonup> string) option"

definition os_path_abspath :: "world \<Rightarrow> string \<Rightarrow> string" where
  "os_path_abspath w path =
     os_path_normpath (if os_path_isabs path then path else os_path_join (cwd w) [path])"

definition os_path_exists :: "world \<Rightarrow> string \<Rightarrow> bool" where
  "os_path_exists w path = (path \<noteq> [] \<and> os_path_abspath w path \<in> files w \<union> dirs w)"

text \<open>\<^verbatim>\<open>os.listdir\<close>: the names it returns are only printed by the handler; what matters
  is whether it raises.\<close>

definition os_listdir :: "world \<Rightarrow> string \<Rightarrow> error + unit" where
  "os_listdir w path =
     (if path \<noteq> [] \<and> os_path_abspath w path \<in> dirs w then Inr ()
      else if path \<noteq> [] \<and> os_path_abspath w path \<in> files w then Inl NotADirectoryError
      else Inl FileNotFoundError)"

definition os_chdir :: "world \<Rightarrow> string \<Rightarrow> error + world" where
  "os_chdir w path =
     (if path \<noteq> [] \<and> os_path_abspath w path \<in> dirs w
      then Inr (w\<lparr>cwd := os_path_abspath w path\<rparr>)
      else if path \<noteq> [] \<and> os_path_abspath w path \<in> files w then Inl NotADirectoryError
      else Inl FileNotFoundError)"

definition os_remove :: "world \<Rightarrow> string \<Rightarrow> error + world" where
  "os_remove w path =
     (if path \<noteq> [] \<and> os_path_abspath w path \<in> files w
      then Inr (w\<lparr>files := files w - {os_path_abspath w path}\<rparr>)
      else if path \<noteq> [] \<and> os_path_abspath w path \<in> dirs w then Inl IsADirectoryError
      else Inl FileNotFoundError)"

text \<open>\<^verbatim>\<open>subprocess.run(command, shell=True, timeout=timeout, ...)\<close>: the external program
  runs in the current working directory; the call is logged.\<close>

definition subprocess_run :: "env \<Rightarrow> string \<Rightarrow> int option \<Rightarrow> world \<Rightarrow> proc_result \<times> world" where
  "subprocess_run env command timeout w =
     (let (r, fs) = shell env command timeout (cwd w) (files w) in
      (r, w\<lparr>files := fs, spawned := spawned w @ [(command, timeout)]\<rparr>))"

section \<open>The handler\<close>

text \<open>
  Every function takes the world it runs in. A function that only reads the world
  returns \<open>error + 'a\<close> (\<open>Inl\<close>: the exception that leaves it); one that changes it returns
  the world it leaves as well, also when it raises. What the handler prints is not
  modelled.
\<close>

subsection \<open>\<^verbatim>\<open>_check_if_file_exists\<close> (lines 15 to 28)\<close>

text \<open>Before it raises, the function lists the containing directory with an unguarded
  \<^verbatim>\<open>os.listdir\<close>, whose own exception then takes the place of the one of line 26.\<close>

definition check_if_file_exists :: "world \<Rightarrow> string \<Rightarrow> error + bool" where
  "check_if_file_exists w input_path =
     (if \<not> os_path_exists w input_path then
        (let directory =
               (if os_path_dirname input_path = [] then ''.'' else os_path_dirname input_path)
         in case os_listdir w directory of
              Inl e \<Rightarrow> Inl e
            | Inr _ \<Rightarrow> Inl FileNotFoundError)
      else Inr True)"

subsection \<open>\<^verbatim>\<open>get_conda_env\<close> (lines 30 to 49)\<close>

definition conda_info_command :: string where
  "conda_info_command = ''conda info --envs | grep '' @ [CHR 0x22] @ ''*'' @ [CHR 0x22]"

text \<open>The name the function returns is only printed by its caller; the model keeps what
  the call does to the world: with \<^verbatim>\<open>CONDA_DEFAULT_ENV\<close> unset or empty it runs a probe,
  without a timeout, and swallows every exception of it.\<close>

definition get_conda_env :: "env \<Rightarrow> world \<Rightarrow> world" where
  "get_conda_env env w =
     (case conda_default_env env of
        None \<Rightarrow> snd (subprocess_run env conda_info_command None w)
      | Some conda_env \<Rightarrow>
          if conda_env \<noteq> [] then w
          else snd (subprocess_run env conda_info_command None w))"

subsection \<open>\<^verbatim>\<open>get_env_vars\<close> (lines 51 to 59)\<close>

text \<open>\<^verbatim>\<open>config_file\<close> defaults to \<^verbatim>\<open>None\<close> in every caller, and \<^verbatim>\<open>os.path.exists(None)\<close>
  raises \<^verbatim>\<open>TypeError\<close>; \<^verbatim>\<open>open\<close> raises on a directory; \<^verbatim>\<open>json.load\<close> raises on text
  that is not JSON.\<close>

definition get_env_vars :: "env \<Rightarrow> world \<Rightarrow> string option \<Rightarrow> error + (string \<rightharpoonup> string)" where
  "get_env_vars env w config_file =
     (case config_file of
        None \<Rightarrow> Inl TypeError
      | Some f \<Rightarrow>
          if \<not> os_path_exists w f then Inl FileNotFoundError
          else if os_path_abspath w f \<in> dirs w then Inl IsADirectoryError
          else (case json_load env (os_path_abspath w f) of
                  None \<Rightarrow> Inl JSONDecodeError
                | Some env_vars \<Rightarrow> Inr env_vars))"

text \<open>\<^verbatim>\<open>env_vars[key]\<close>.\<close>

definition dict_item :: "(string \<rightharpoonup> string) \<Rightarrow> string \<Rightarrow> error + string" where
  "dict_item d k = (case d k of None \<Rightarrow> Inl (KeyError k) | Some v \<Rightarrow> Inr v)"

subsection \<open>\<^verbatim>\<open>construct_shell_command\<close> (lines 157 to 207)\<close>

text \<open>The table of line 191, as written: the key \<^verbatim>\<open>'cif'\<close> stands twice.\<close>

definition format_map :: "string \<rightharpoonup> string" where
  "format_map = dict_of
     [(''pdb'', ''pdb''), (''pqr'', ''pqr''), (''mol'', ''mol''), (''mol2'', ''mol2''),
      (''sdf'', ''sdf''), (''xyz'', ''xyz''), (''pdbqt'', ''pdbqt''),
      (''cif'', ''mmcif''), (''cif'', ''cif'')]"

text \<open>How an f-string prints the result of \<^verbatim>\<open>dict.get\<close>: the value, or \<^verbatim>\<open>None\<close>.\<close>

definition format_str :: "string option \<Rightarrow> string" where
  "format_str v = (case v of None \<Rightarrow> ''None'' | Some s \<Rightarrow> s)"

text \<open>
  \<open>pH_value\<close> is the text the f-string of line 207 prints for the pH (\<^verbatim>\<open>6.5\<close> for the
  float 6.5). The result is \<open>Inr None\<close> where the Python function falls off its end and
  returns \<^verbatim>\<open>None\<close>: for every tool name that none of the four branches tests for.
\<close>

definition construct_shell_command ::
    "env \<Rightarrow> world \<Rightarrow> string \<Rightarrow> string \<Rightarrow> string \<Rightarrow> string \<Rightarrow> string option
     \<Rightarrow> error + string option" where
  "construct_shell_command env w tool_name abs_input_path abs_output_path pH_value config_file =
     (let input_ext = file_ext abs_input_path;
          output_ext = file_ext abs_output_path in
      if tool_name = ''MGLTools'' then
        (case get_env_vars env w config_file of Inl e \<Rightarrow> Inl e | Inr env_vars \<Rightarrow>
        (case dict_item env_vars ''MGL_BIN'' of Inl e \<Rightarrow> Inl e | Inr mgl_bin \<Rightarrow>
        (case dict_item env_vars ''MGL_PACKAGES'' of Inl e \<Rightarrow> Inl e | Inr mgl_packages \<Rightarrow>
          (let pythonsh = os_path_join mgl_bin [''pythonsh''];
               prepare_receptor_script =
                 os_path_join mgl_packages
                   [''AutoDockTools'', ''Utilities24'', ''prepare_receptor4.py'']
           in
           (case check_if_file_exists w pythonsh of Inl e \<Rightarrow> Inl e | Inr _ \<Rightarrow>
           (case check_if_file_exists w prepare_receptor_script of Inl e \<Rightarrow> Inl e | Inr _ \<Rightarrow>
             (let input_filename =
                    (if os_path_isabs abs_input_path then os_path_basename abs_input_path
                     else abs_input_path);
                  output_filename =
                    (if os_path_isabs abs_output_path then os_path_basename abs_output_path
                     else abs_output_path)
              in
              (case dict_item env_vars ''MGL_ENV_NAME'' of
                 Inl e \<Rightarrow> Inl e
               | Inr mgl_env_name \<Rightarrow>
                   if input_ext = ''pqr'' then
                     Inr (Some (''conda run -n '' @ mgl_env_name
                       @ '' --no-capture-output bash -c 'export PYTHONPATH='' @ mgl_packages
                       @ '':$PYTHONPATH && '' @ pythonsh @ '' '' @ prepare_receptor_script
                       @ '' -r '' @ input_filename @ '' -o '' @ output_filename
                       @ '' -A checkhydrogens -C -U nphs_lps'' @ [CHR 0x27]))
                   else
                     Inr (Some (''conda run -n '' @ mgl_env_name
                       @ '' --no-capture-output bash -c 'export PYTHONPATH='' @ mgl_packages
                       @ '':$PYTHONPATH && '' @ pythonsh @ '' '' @ prepare_receptor_script
                       @ '' -r '' @ input_filename @ '' -o '' @ output_filename
                       @ '' -A checkhydrogens'' @ [CHR 0x27]))))))))))
      else if tool_name = ''OpenBabel'' then
        (let input_format = format_map input_ext;
             output_format = format_map output_ext
         in Inr (Some (''obabel -i'' @ format_str input_format @ '' '' @ abs_input_path
               @ '' -o'' @ format_str output_format @ '' -O '' @ abs_output_path)))
      else if tool_name = ''MolProbity'' then
        (case get_env_vars env w config_file of Inl e \<Rightarrow> Inl e | Inr env_vars \<Rightarrow>
        (case dict_item env_vars ''MOLPROBITY_BIN'' of Inl e \<Rightarrow> Inl e | Inr molprobity_bin \<Rightarrow>
          (let reduce = os_path_join molprobity_bin [''reduce''];
               probe = os_path_join molprobity_bin [''probe'']
           in
           (case check_if_file_exists w reduce of Inl e \<Rightarrow> Inl e | Inr _ \<Rightarrow>
           (case check_if_file_exists w probe of Inl e \<Rightarrow> Inl e | Inr _ \<Rightarrow>
              Inr (Some (reduce @ '' -FLIP '' @ abs_input_path @ '' > ''
                         @ abs_output_path)))))))
      else if tool_name = ''PDB2PQR'' then
        Inr (Some (''pdb2pqr30 --ff AMBER --keep-chain --titration-state-method propka --with-ph ''
               @ pH_value @ '' '' @ abs_input_path @ '' '' @ abs_output_path))
      else Inr None)"

subsection \<open>\<^verbatim>\<open>_run_subprocess_command\<close> (lines 61 to 155)\<close>

text \<open>Lines 77 to 82: the timeout of the tool's process.\<close>

definition effective_timeout :: "string \<Rightarrow> int option \<Rightarrow> int" where
  "effective_timeout tool_name timeout =
     (case timeout of
        None \<Rightarrow> if tool_name = ''PDB2PQR'' then 1800 else 300
      | Some t \<Rightarrow> t)"

text \<open>Lines 87 to 105: for MGLTools the working directory becomes the input's directory
  and the command is built again, from the bare file names and the pH 7.4. The command
  is \<open>None\<close> only if \<open>construct_shell_command\<close> returns \<^verbatim>\<open>None\<close>.\<close>

definition relocate_for_mgltools ::
    "env \<Rightarrow> string \<Rightarrow> string \<Rightarrow> string \<Rightarrow> string \<Rightarrow> string option \<Rightarrow> world
     \<Rightarrow> (error + string option) \<times> world" where
  "relocate_for_mgltools env tool_name command abs_input_path abs_output_path config_file w =
     (if tool_name = ''MGLTools'' then
        (let input_dir = os_path_dirname abs_input_path;
             input_filename = os_path_basename abs_input_path;
             output_filename = os_path_basename abs_output_path
         in
         case (if input_dir \<noteq> [] then os_chdir w input_dir else Inr w) of
           Inl e \<Rightarrow> (Inl e, w)
         | Inr w' \<Rightarrow>
             (construct_shell_command env w' tool_name input_filename output_filename
                ''7.4'' config_file, w'))
      else (Inr (Some command), w))"

text \<open>Lines 110 to 137: the process is run with \<^verbatim>\<open>check=True\<close>. A non-zero exit status
  is raised again unless the tool is MolProbity and the output file exists; a timeout is
  raised again; after a zero exit status the result says whether the output file
  exists. (\<^verbatim>\<open>subprocess.run\<close> raises \<^verbatim>\<open>TypeError\<close> for a command that is \<^verbatim>\<open>None\<close>.)\<close>

definition execute_command ::
    "env \<Rightarrow> string \<Rightarrow> string option \<Rightarrow> string \<Rightarrow> int \<Rightarrow> world \<Rightarrow> (error + bool) \<times> world" where
  "execute_command env tool_name command abs_output_path timeout w =
     (case command of
        None \<Rightarrow> (Inl TypeError, w)
      | Some c \<Rightarrow>
          (case subprocess_run env c (Some timeout) w of
             (Exited returncode, w') \<Rightarrow>
               if returncode = 0 then (Inr (os_path_exists w' abs_output_path), w')
               else if tool_name = ''MolProbity'' \<and> os_path_exists w' abs_output_path
                    then (Inr True, w')
               else (Inl (CalledProcessError returncode), w')
           | (TimedOut, w') \<Rightarrow> (Inl TimeoutExpired, w')
           | (LaunchFailed, w') \<Rightarrow> (Inl OSError, w')))"

text \<open>Lines 151 to 154, the \<^verbatim>\<open>finally\<close> clause: an exception of \<^verbatim>\<open>os.chdir\<close> there
  replaces the result of the \<^verbatim>\<open>try\<close> block.\<close>

definition restore_cwd :: "string \<Rightarrow> (error + bool) \<times> world \<Rightarrow> (error + bool) \<times> world" where
  "restore_cwd original_cwd rw =
     (case rw of (r, w) \<Rightarrow>
        if cwd w \<noteq> original_cwd then
          (case os_chdir w original_cwd of
             Inl e \<Rightarrow> (Inl e, w)
           | Inr w' \<Rightarrow> (r, w'))
        else (r, w))"

text \<open>The two outer \<^verbatim>\<open>except\<close> clauses (lines 138 to 150) print and raise the exception
  again, so the \<^verbatim>\<open>try\<close> block's result passes through them unchanged.\<close>

definition run_subprocess_command ::
    "env \<Rightarrow> string \<Rightarrow> string \<Rightarrow> string \<Rightarrow> string \<Rightarrow> string option \<Rightarrow> int option \<Rightarrow> world
     \<Rightarrow> (error + bool) \<times> world" where
  "run_subprocess_command env tool_name command abs_input_path abs_output_path config_file
       timeout w =
     (let original_cwd = cwd w;
          w1 = get_conda_env env w;
          timeout' = effective_timeout tool_name timeout
      in restore_cwd original_cwd
           (case relocate_for_mgltools env tool_name command abs_input_path abs_output_path
                   config_file w1 of
              (Inl e, w2) \<Rightarrow> (Inl e, w2)
            | (Inr command', w2) \<Rightarrow>
                execute_command env tool_name command' abs_output_path timeout' w2))"

subsection \<open>\<^verbatim>\<open>run_program\<close> (lines 209 to 280)\<close>

text \<open>Lines 239 to 257: a PQR input of MGLTools is first converted to PDB, by a process
  run without a timeout. The result is the input path the rest of the call uses; every
  exception of the conversion is caught.\<close>

definition obabel_command :: "string \<Rightarrow> string \<Rightarrow> string" where
  "obabel_command abs_input_path temp_pdb_path =
     ''obabel -ipqr '' @ abs_input_path @ '' -opdb -O '' @ temp_pdb_path"

definition preconvert_pqr :: "env \<Rightarrow> string \<Rightarrow> string \<Rightarrow> world \<Rightarrow> string \<times> world" where
  "preconvert_pqr env abs_input_path temp_pdb_path w =
     (case subprocess_run env (obabel_command abs_input_path temp_pdb_path) None w of
        (Exited returncode, w') \<Rightarrow>
          if returncode = 0 \<and> os_path_exists w' temp_pdb_path then (temp_pdb_path, w')
          else (abs_input_path, w')
      | (_, w') \<Rightarrow> (abs_input_path, w'))"

text \<open>Lines 272 to 278: the temporary file is removed after \<^verbatim>\<open>_run_subprocess_command\<close>
  has returned; an exception of \<^verbatim>\<open>os.remove\<close> is caught.\<close>

definition remove_temp :: "string \<Rightarrow> string \<Rightarrow> string \<Rightarrow> world \<Rightarrow> world" where
  "remove_temp tool_name input_ext temp_pdb_path w =
     (if tool_name = ''MGLTools'' \<and> input_ext = ''pqr'' \<and> os_path_exists w temp_pdb_path then
        (case os_remove w temp_pdb_path of Inl _ \<Rightarrow> w | Inr w' \<Rightarrow> w')
      else w)"

text \<open>Lines 259 to 280: the command is built, refused if it is \<^verbatim>\<open>None\<close> or empty, and
  run; \<open>abs_input_path\<close> is the input path in effect after the conversion step.\<close>

definition build_and_run ::
    "env \<Rightarrow> string \<Rightarrow> string \<Rightarrow> string \<Rightarrow> string \<Rightarrow> string option \<Rightarrow> int option
     \<Rightarrow> string \<Rightarrow> string \<Rightarrow> world \<Rightarrow> (error + bool) \<times> world" where
  "build_and_run env tool_name abs_input_path abs_output_path pH_value config_file timeout
       input_ext temp_pdb_path w =
     (case construct_shell_command env w tool_name abs_input_path abs_output_path pH_value
             config_file of
        Inl e \<Rightarrow> (Inl e, w)
      | Inr None \<Rightarrow> (Inl ValueError, w)
      | Inr (Some command) \<Rightarrow>
          if command = [] then (Inl ValueError, w)
          else
            (case run_subprocess_command env tool_name command abs_input_path abs_output_path
                    config_file timeout w of
               (Inl e, w') \<Rightarrow> (Inl e, w')
             | (Inr success, w') \<Rightarrow>
                 (Inr success, remove_temp tool_name input_ext temp_pdb_path w')))"

definition run_program ::
    "env \<Rightarrow> string \<Rightarrow> string \<Rightarrow> string \<Rightarrow> string \<Rightarrow> string option \<Rightarrow> int option \<Rightarrow> world
     \<Rightarrow> (error + bool) \<times> world" where
  "run_program env tool_name input_path output_path pH_value config_file timeout w =
     (let abs_input_path = os_path_abspath w input_path;
          abs_output_path = os_path_abspath w output_path
      in
      case check_if_file_exists w abs_input_path of
        Inl e \<Rightarrow> (Inl e, w)
      | Inr _ \<Rightarrow>
          (let input_ext = file_ext abs_input_path;
               temp_pdb_path = str_replace ''.pqr'' ''_temp.pdb'' abs_input_path;
               (abs_input_path', w1) =
                 (if tool_name = ''MGLTools'' \<and> input_ext = ''pqr''
                  then preconvert_pqr env abs_input_path temp_pdb_path w
                  else (abs_input_path, w))
           in build_and_run env tool_name abs_input_path' abs_output_path pH_value config_file
                timeout input_ext temp_pdb_path w1))"

section \<open>Well-formed worlds and a concrete installation\<close>

text \<open>\<^verbatim>\<open>os.getcwd()\<close> returns the normalised absolute path of an existing directory.\<close>

definition cwd_ok :: "world \<Rightarrow> bool" where
  "cwd_ok w = (os_path_isabs (cwd w) \<and> os_path_normpath (cwd w) = cwd w \<and> cwd w \<in> dirs w)"

text \<open>
  A small installation on which the handler is run below: a receptor as PQR and as PDB
  under \<^verbatim>\<open>/data\<close>, a text file beside them, the configuration file in the working
  directory \<^verbatim>\<open>/work\<close>, and the MGLTools and MolProbity programs it names.
\<close>

definition demo_config :: "string \<rightharpoonup> string" where
  "demo_config = dict_of
     [(''MGL_BIN'', ''/opt/mgl/bin''), (''MGL_PACKAGES'', ''/opt/mgl/pkgs''),
      (''MGL_ENV_NAME'', ''mgl''), (''MOLPROBITY_BIN'', ''/opt/mp/bin'')]"

definition demo_world :: world where
  "demo_world =
     \<lparr>files = {''/data/rec.pqr'', ''/data/rec.pdb'', ''/data/notes.txt'', ''/work/config.json'',
              ''/opt/mgl/bin/pythonsh'',
              ''/opt/mgl/pkgs/AutoDockTools/Utilities24/prepare_receptor4.py'',
              ''/opt/mp/bin/reduce'', ''/opt/mp/bin/probe''},
      dirs = {''/'', ''/data'', ''/work'', ''/opt'', ''/opt/mgl'', ''/opt/mgl/bin'', ''/opt/mp'',
              ''/opt/mp/bin''},
      cwd = ''/work'',
      spawned = []\<rparr>"

text \<open>
  External programs for it: the PQR to PDB conversion of \<open>run_program\<close> ends with
  \<open>pre\<close> and leaves the files \<open>pre_created\<close>; every other command ends with \<open>r\<close> and
  leaves the files \<open>created\<close>. \<^verbatim>\<open>CONDA_DEFAULT_ENV\<close> is set.
\<close>

definition demo_shell ::
    "proc_result \<Rightarrow> string set \<Rightarrow> proc_result \<Rightarrow> string set
     \<Rightarrow> string \<Rightarrow> int option \<Rightarrow> string \<Rightarrow> string set \<Rightarrow> proc_result \<times> string set" where
  "demo_shell pre pre_created r created command timeout dir fs =
     (if prefix ''obabel -ipqr '' command then (pre, fs \<union> pre_created)
      else (r, fs \<union> created))"

definition demo_env :: "proc_result \<Rightarrow> string set \<Rightarrow> proc_result \<Rightarrow> string set \<Rightarrow> env" where
  "demo_env pre pre_created r created =
     \<lparr>shell = demo_shell pre pre_created r created,
      conda_default_env = Some ''dock'',
      json_load = (\<lambda>f. if f = ''/work/config.json'' then Some demo_config else None)\<rparr>"

text \<open>The command lines that occur in the runs below.\<close>

definition mgl_command :: "string \<Rightarrow> string \<Rightarrow> string \<Rightarrow> string" where
  "mgl_command input_filename output_filename flags =
     ''conda run -n mgl --no-capture-output bash -c 'export PYTHONPATH=/opt/mgl/pkgs''
     @ '':$PYTHONPATH && /opt/mgl/bin/pythonsh ''
     @ ''/opt/mgl/pkgs/AutoDockTools/Utilities24/prepare_receptor4.py -r '' @ input_filename
     @ '' -o '' @ output_filename @ '' -A checkhydrogens'' @ flags @ [CHR 0x27]"

text \<open>An external program that runs into the timeout and leaves a file in the directory
  it was started in.\<close>

definition probe_env :: env where
  "probe_env =
     (demo_env (Exited 0) {} (Exited 0) {})
       \<lparr>shell := \<lambda>command timeout dir fs. (TimedOut, insert (dir @ ''/ran_here'') fs)\<rparr>"

text \<open>Scenarios: nothing fails and nothing is written; the PQR to PDB conversion fails and
  the tool succeeds; the conversion succeeds and the tool fails.\<close>

definition quiet_env :: env where
  "quiet_env = demo_env (Exited 0) {} (Exited 0) {}"

definition failing_conversion_env :: env where
  "failing_conversion_env = demo_env (Exited 1) {} (Exited 0) {''/data/rec.pdbqt''}"

definition failing_tool_env :: env where
  "failing_tool_env = demo_env (Exited 0) {''/data/rec_temp.pdb''} (Exited 1) {}"

definition reduce_command :: string where
  "reduce_command = ''/opt/mp/bin/reduce -FLIP /data/rec.pdb > /data/rec_h.pdb''"

section \<open>Evaluation and frame lemmas\<close>

lemmas path_defs = os_path_abspath_def os_path_isabs_def os_path_normpath_def normpath_step_def
  os_path_join_def os_path_dirname_def os_path_basename_def os_path_splitext_def file_ext_def
  str_lstrip_def str_rstrip_def str_lower_def str_lower_char_def

lemmas os_defs = os_path_exists_def os_listdir_def os_chdir_def os_remove_def subprocess_run_def

lemmas handler_defs = check_if_file_exists_def get_conda_env_def get_env_vars_def dict_item_def
  format_map_def format_str_def dict_of_def construct_shell_command_def effective_timeout_def
  relocate_for_mgltools_def execute_command_def restore_cwd_def run_subprocess_command_def
  obabel_command_def preconvert_pqr_def remove_temp_def build_and_run_def run_program_def

lemmas demo_defs = demo_config_def demo_world_def demo_shell_def demo_env_def mgl_command_def
  probe_env_def quiet_env_def failing_conversion_env_def failing_tool_env_def

text \<open>What each step leaves untouched.\<close>

lemma subprocess_run_frame:
  "subprocess_run env c t w = (r, w') \<Longrightarrow>
     cwd w' = cwd w \<and> dirs w' = dirs w \<and> spawned w' = spawned w @ [(c, t)]"
  by (auto simp: subprocess_run_def split: prod.splits)

lemma get_conda_env_frame:
  "cwd (get_conda_env env w) = cwd w \<and> dirs (get_conda_env env w) = dirs w"
  by (auto simp: get_conda_env_def subprocess_run_def split: option.splits prod.splits)

lemma os_chdir_frame:
  "os_chdir w d = Inr w' \<Longrightarrow>
     dirs w' = dirs w \<and> files w' = files w \<and> spawned w' = spawned w"
  by (auto simp: os_chdir_def split: if_splits)

lemma relocate_frame:
  "relocate_for_mgltools env tool c i out cfg w = (r, w') \<Longrightarrow>
     dirs w' = dirs w \<and> files w' = files w \<and> spawned w' = spawned w"
  by (auto simp: relocate_for_mgltools_def Let_def dest: os_chdir_frame
      split: if_splits sum.splits)

lemma relocate_other:
  "tool_name \<noteq> ''MGLTools'' \<Longrightarrow>
     relocate_for_mgltools env tool_name command i out cfg w = (Inr (Some command), w)"
  by (simp add: relocate_for_mgltools_def)

lemma execute_command_frame:
  "execute_command env tool c out t w = (r, w') \<Longrightarrow> cwd w' = cwd w \<and> dirs w' = dirs w"
  by (auto simp: execute_command_def dest: subprocess_run_frame
      split: option.splits prod.splits proc_result.splits if_splits)

text \<open>The \<^verbatim>\<open>finally\<close> clause.\<close>

lemma os_chdir_back:
  assumes "os_path_isabs d" "os_path_normpath d = d" "d \<in> dirs w"
  shows "os_chdir w d = Inr (w\<lparr>cwd := d\<rparr>)"
proof -
  from assms(1) have "d \<noteq> []" by (auto simp: os_path_isabs_def)
  moreover from assms(1,2) have "os_path_abspath w d = d" by (simp add: os_path_abspath_def)
  ultimately show ?thesis using assms(3) by (simp add: os_chdir_def)
qed

lemma restore_cwd_same: "cwd w = d \<Longrightarrow> restore_cwd d (r, w) = (r, w)"
  by (simp add: restore_cwd_def)

lemma restore_cwd_result:
  assumes "os_path_isabs d" "os_path_normpath d = d" "d \<in> dirs w"
  shows "fst (restore_cwd d (r, w)) = r \<and> cwd (snd (restore_cwd d (r, w))) = d"
  using os_chdir_back [OF assms] by (simp add: restore_cwd_def)

lemma restore_cwd_spawned: "spawned (snd (restore_cwd d (r, w))) = spawned w"
  by (auto simp: restore_cwd_def dest: os_chdir_frame split: sum.splits)

text \<open>The try block of \<^verbatim>\<open>_run_subprocess_command\<close> restores what it must: either the tool
  is not MGLTools and the working directory never changed, or the world is well-formed
  and the way back exists.\<close>

lemma restore_after_body:
  assumes rel: "relocate_for_mgltools env tool_name command abs_input_path abs_output_path
                  config_file (get_conda_env env w) = (r2, w2)"
      and body: "(case r2 of Inl e \<Rightarrow> (Inl e, w2)
                  | Inr command' \<Rightarrow>
                      execute_command env tool_name command' abs_output_path t w2) = (r3, w3)"
      and ok: "tool_name = ''MGLTools'' \<longrightarrow> cwd_ok w"
  shows "fst (restore_cwd (cwd w) (r3, w3)) = r3 \<and> cwd (snd (restore_cwd (cwd w) (r3, w3))) = cwd w"
proof (cases "tool_name = ''MGLTools''")
  case True
  have "dirs w2 = dirs w"
    using relocate_frame [OF rel] get_conda_env_frame [of env w] by simp
  moreover have "dirs w3 = dirs w2"
    using body by (auto split: sum.splits dest: execute_command_frame)
  ultimately have "cwd w \<in> dirs w3" using ok True by (simp add: cwd_ok_def)
  then show ?thesis
    using ok True restore_cwd_result by (simp add: cwd_ok_def)
next
  case False
  then have "r2 = Inr (Some command)" and "w2 = get_conda_env env w"
    using rel by (simp_all add: relocate_other)
  then have "cwd w3 = cwd w"
    using body execute_command_frame [of env tool_name "Some command" abs_output_path t w2 r3 w3]
      get_conda_env_frame [of env w]
    by simp
  then show ?thesis by (simp add: restore_cwd_same)
qed

lemma run_subprocess_command_unfold:
  assumes rel: "relocate_for_mgltools env tool_name command abs_input_path abs_output_path
                  config_file (get_conda_env env w) = (r2, w2)"
  shows "run_subprocess_command env tool_name command abs_input_path abs_output_path config_file
           timeout w
         = restore_cwd (cwd w)
             (case r2 of Inl e \<Rightarrow> (Inl e, w2)
              | Inr command' \<Rightarrow>
                  execute_command env tool_name command' abs_output_path
                    (effective_timeout tool_name timeout) w2)"
  using rel by (simp add: run_subprocess_command_def Let_def split: sum.splits)

text \<open>The concrete installation.\<close>

lemma demo_cwd_ok: "cwd_ok demo_world"
  by (simp add: cwd_ok_def demo_world_def path_defs)

lemma demo_no_probe: "get_conda_env (demo_env pre pc r c) w = w"
  by (simp add: get_conda_env_def demo_env_def)

lemma quiet_no_probe: "get_conda_env quiet_env w = w"
  by (simp add: quiet_env_def demo_no_probe)

section \<open>The claims\<close>

subsection \<open>C1: the temporary PDB file\<close>

text \<open>When \<^verbatim>\<open>_run_subprocess_command\<close> raises, \<open>run_program\<close> is left at line 270: the
  clean-up of lines 272 to 278 is not reached, and the world is the one the failed call
  left.\<close>

lemma no_cleanup_on_error:
  assumes "construct_shell_command env w tool_name abs_input_path abs_output_path pH_value
             config_file = Inr (Some command)"
      and "command \<noteq> []"
      and "run_subprocess_command env tool_name command abs_input_path abs_output_path
             config_file timeout w = (Inl e, w')"
  shows "build_and_run env tool_name abs_input_path abs_output_path pH_value config_file timeout
           input_ext temp_pdb_path w = (Inl e, w')"
  using assms by (simp add: build_and_run_def)

text \<open>
  Claim C1 says that after an MGLTools call on a PQR input the temporary PDB file does not
  exist, also when the main invocation raises. The code does not do that: in the
  installation above, with a conversion that writes \<^verbatim>\<open>/data/rec_temp.pdb\<close> and a
  receptor preparation that exits with status 1, \<open>run_program\<close> raises
  \<^verbatim>\<open>CalledProcessError\<close> and the temporary file is still there.
\<close>

theorem temporary_file_left_behind:
  "run_program failing_tool_env ''MGLTools'' ''/data/rec.pqr'' ''/data/rec.pdbqt'' ''7.4''
       (Some ''/work/config.json'') None demo_world
   = (Inl (CalledProcessError 1),
      demo_world\<lparr>files := insert ''/data/rec_temp.pdb'' (files demo_world),
                 spawned := [(''obabel -ipqr /data/rec.pqr -opdb -O /data/rec_temp.pdb'', None),
                             (mgl_command ''rec_temp.pdb'' ''rec.pdbqt'' [], Some 300)]\<rparr>)
   \<and> os_path_exists
        (snd (run_program failing_tool_env ''MGLTools'' ''/data/rec.pqr'' ''/data/rec.pdbqt''
                ''7.4'' (Some ''/work/config.json'') None demo_world))
        ''/data/rec_temp.pdb''"
proof -
  have run: "run_program failing_tool_env ''MGLTools'' ''/data/rec.pqr'' ''/data/rec.pdbqt''
       ''7.4'' (Some ''/work/config.json'') None demo_world
   = (Inl (CalledProcessError 1),
      demo_world\<lparr>files := insert ''/data/rec_temp.pdb'' (files demo_world),
                 spawned := [(''obabel -ipqr /data/rec.pqr -opdb -O /data/rec_temp.pdb'', None),
                             (mgl_command ''rec_temp.pdb'' ''rec.pdbqt'' [], Some 300)]\<rparr>)"
    by (simp add: path_defs os_defs handler_defs demo_defs Let_def)
  show ?thesis
    unfolding run by (simp add: os_path_exists_def path_defs demo_world_def)
qed

subsection \<open>C2: the format code of \<^verbatim>\<open>cif\<close>\<close>

text \<open>
  Claim C2 says that the OpenBabel command gets the format code \<^verbatim>\<open>mmcif\<close> for a path
  with the extension \<^verbatim>\<open>cif\<close>. The table of line 191 has the key twice, the second time
  with the value \<^verbatim>\<open>cif\<close>, and that is the code the command gets, for the input and for
  the output.
\<close>

theorem cif_format_code:
  "format_map ''cif'' = Some ''cif''
   \<and> construct_shell_command env w ''OpenBabel'' ''/data/model.cif'' ''/data/model.pdb''
        pH_value config_file
     = Inr (Some ''obabel -icif /data/model.cif -opdb -O /data/model.pdb'')
   \<and> construct_shell_command env w ''OpenBabel'' ''/data/rec.pdb'' ''/data/rec.cif''
        pH_value config_file
     = Inr (Some ''obabel -ipdb /data/rec.pdb -ocif -O /data/rec.cif'')"
  by (simp add: construct_shell_command_def format_map_def format_str_def dict_of_def path_defs
      Let_def)

subsection \<open>C3: extensions outside the table\<close>

text \<open>
  Claim C3 says that an OpenBabel request with an extension outside the table fails before
  any process is run. The code builds a command with the format code \<^verbatim>\<open>None\<close> and runs
  it: for a text file and an output named \<^verbatim>\<open>notes.xtc\<close> the call returns (\<^verbatim>\<open>False\<close>,
  no output file was written) after the process has been run.
\<close>

theorem unrecognised_format_is_run:
  "construct_shell_command quiet_env demo_world ''OpenBabel'' ''/data/notes.txt''
       ''/data/notes.xtc'' ''7.4'' None
     = Inr (Some ''obabel -iNone /data/notes.txt -oNone -O /data/notes.xtc'')
   \<and> run_program quiet_env ''OpenBabel'' ''/data/notes.txt'' ''/data/notes.xtc'' ''7.4'' None None
        demo_world
     = (Inr False,
        demo_world\<lparr>spawned := [(''obabel -iNone /data/notes.txt -oNone -O /data/notes.xtc'',
                                  Some 300)]\<rparr>)"
  by (simp add: path_defs os_defs handler_defs demo_defs Let_def)

subsection \<open>C4: a non-zero exit status\<close>

text \<open>
  Claim C4. Let \<open>c\<close> be the command \<^verbatim>\<open>_run_subprocess_command\<close> runs (for every tool but
  MGLTools the command it was given, see \<open>relocate_other\<close>) and let the process exit with
  a status other than 0. Then the call returns \<^verbatim>\<open>True\<close> if the tool is MolProbity and
  the output file exists afterwards, and raises \<^verbatim>\<open>CalledProcessError\<close> in every other
  case: for MolProbity without an output file, and for every other tool whether the
  output file exists or not.
\<close>

theorem nonzero_exit_status:
  assumes rel: "relocate_for_mgltools env tool_name command abs_input_path abs_output_path
                  config_file (get_conda_env env w) = (Inr (Some c), w2)"
      and run: "subprocess_run env c (Some (effective_timeout tool_name timeout)) w2
                  = (Exited returncode, w3)"
      and nz: "returncode \<noteq> 0"
      and ok: "tool_name = ''MGLTools'' \<longrightarrow> cwd_ok w"
  shows "fst (run_subprocess_command env tool_name command abs_input_path abs_output_path
            config_file timeout w)
         = (if tool_name = ''MolProbity'' \<and> os_path_exists w3 abs_output_path then Inr True
            else Inl (CalledProcessError returncode))"
proof -
  let ?r = "if tool_name = ''MolProbity'' \<and> os_path_exists w3 abs_output_path then Inr True
            else Inl (CalledProcessError returncode)"
  have "execute_command env tool_name (Some c) abs_output_path
          (effective_timeout tool_name timeout) w2 = (?r, w3)"
    using run nz by (simp add: execute_command_def)
  then have body: "(case Inr (Some c) of Inl e \<Rightarrow> (Inl e, w2)
                    | Inr command' \<Rightarrow>
                        execute_command env tool_name command' abs_output_path
                          (effective_timeout tool_name timeout) w2) = (?r, w3)"
    by simp
  have "run_subprocess_command env tool_name command abs_input_path abs_output_path config_file
          timeout w = restore_cwd (cwd w) (?r, w3)"
    by (simp only: run_subprocess_command_unfold [OF rel] body)
  moreover have "fst (restore_cwd (cwd w) (?r, w3)) = ?r"
    using restore_after_body [OF rel body ok] by (rule conjunct1)
  ultimately show ?thesis by (simp only:)
qed

text \<open>MolProbity exits with status 1: with the output file written the call returns
  \<^verbatim>\<open>True\<close>, without it the call raises. PDB2PQR exits with status 1 and the output file
  written: the call raises.\<close>

theorem nonzero_exit_status_witness:
  "fst (run_subprocess_command (demo_env (Exited 0) {} (Exited 1) {''/data/rec_h.pdb''})
          ''MolProbity'' reduce_command ''/data/rec.pdb'' ''/data/rec_h.pdb''
          (Some ''/work/config.json'') None demo_world) = Inr True
   \<and> fst (run_subprocess_command (demo_env (Exited 0) {} (Exited 1) {})
          ''MolProbity'' reduce_command ''/data/rec.pdb'' ''/data/rec_h.pdb''
          (Some ''/work/config.json'') None demo_world) = Inl (CalledProcessError 1)
   \<and> fst (run_subprocess_command (demo_env (Exited 0) {} (Exited 1) {''/data/rec_h.pdb''})
          ''PDB2PQR'' reduce_command ''/data/rec.pdb'' ''/data/rec_h.pdb''
          (Some ''/work/config.json'') None demo_world) = Inl (CalledProcessError 1)"
proof -
  let ?made = "demo_env (Exited 0) {} (Exited 1) {''/data/rec_h.pdb''}"
  let ?none = "demo_env (Exited 0) {} (Exited 1) {}"
  let ?w = "\<lambda>fs t. demo_world\<lparr>files := files demo_world \<union> fs,
                                 spawned := [(reduce_command, Some t)]\<rparr>"
  have run1: "subprocess_run ?made reduce_command (Some (effective_timeout ''MolProbity'' None))
                demo_world = (Exited 1, ?w {''/data/rec_h.pdb''} 300)"
    by (simp add: subprocess_run_def effective_timeout_def demo_defs reduce_command_def)
  have run2: "subprocess_run ?none reduce_command (Some (effective_timeout ''MolProbity'' None))
                demo_world = (Exited 1, ?w {} 300)"
    by (simp add: subprocess_run_def effective_timeout_def demo_defs reduce_command_def)
  have run3: "subprocess_run ?made reduce_command (Some (effective_timeout ''PDB2PQR'' None))
                demo_world = (Exited 1, ?w {''/data/rec_h.pdb''} 1800)"
    by (simp add: subprocess_run_def effective_timeout_def demo_defs reduce_command_def)
  have ex1: "os_path_exists (?w {''/data/rec_h.pdb''} 300) ''/data/rec_h.pdb''"
    by (simp add: os_path_exists_def path_defs demo_world_def)
  have ex2: "\<not> os_path_exists (?w {} 300) ''/data/rec_h.pdb''"
    by (simp add: os_path_exists_def path_defs demo_world_def)
  have nz: "(1::int) \<noteq> 0" by simp
  have rel: "relocate_for_mgltools (demo_env pre pc r c) tool reduce_command ''/data/rec.pdb''
               ''/data/rec_h.pdb'' (Some ''/work/config.json'')
               (get_conda_env (demo_env pre pc r c) demo_world)
             = (Inr (Some reduce_command), demo_world)"
    if "tool \<noteq> ''MGLTools''" for pre pc r c tool
    using that by (simp add: relocate_other demo_no_probe)
  have "fst (run_subprocess_command ?made ''MolProbity'' reduce_command ''/data/rec.pdb''
          ''/data/rec_h.pdb'' (Some ''/work/config.json'') None demo_world) = Inr True"
    using nonzero_exit_status [OF rel run1 nz] ex1 by simp
  moreover have "fst (run_subprocess_command ?none ''MolProbity'' reduce_command ''/data/rec.pdb''
          ''/data/rec_h.pdb'' (Some ''/work/config.json'') None demo_world)
        = Inl (CalledProcessError 1)"
    using nonzero_exit_status [OF rel run2 nz] ex2 by simp
  moreover have "fst (run_subprocess_command ?made ''PDB2PQR'' reduce_command ''/data/rec.pdb''
          ''/data/rec_h.pdb'' (Some ''/work/config.json'') None demo_world)
        = Inl (CalledProcessError 1)"
    using nonzero_exit_status [OF rel run3 nz] by simp
  ultimately show ?thesis by blast
qed

subsection \<open>C5: the working directory is restored\<close>

lemma probe_run:
  "run_subprocess_command probe_env ''MGLTools'' ''true'' ''/data/rec.pdb'' ''/data/rec.pdbqt''
       (Some ''/work/config.json'') None demo_world =
     (Inl TimeoutExpired,
      demo_world\<lparr>files := insert ''/data/ran_here'' (files demo_world),
                 spawned := [(mgl_command ''rec.pdb'' ''rec.pdbqt'' [], Some 300)]\<rparr>)"
  by (simp add: path_defs os_defs handler_defs demo_defs Let_def)

text \<open>
  Claim C5. Whatever way \<^verbatim>\<open>_run_subprocess_command\<close> is left (a Boolean returned, or any
  exception: a non-zero exit status, a timeout, a failure to change directory or to build
  the MGLTools command), the working directory after the call is the one before the
  call. On the MGLTools path, which changes the directory, the world is well-formed: its
  working directory is an existing directory, named as \<^verbatim>\<open>os.getcwd()\<close> names it.
\<close>

theorem working_directory_restored:
  assumes "tool_name = ''MGLTools'' \<longrightarrow> cwd_ok w"
  shows "cwd (snd (run_subprocess_command env tool_name command abs_input_path abs_output_path
            config_file timeout w)) = cwd w"
proof -
  obtain r2 w2 where rel:
    "relocate_for_mgltools env tool_name command abs_input_path abs_output_path config_file
       (get_conda_env env w) = (r2, w2)"
    by (cases "relocate_for_mgltools env tool_name command abs_input_path abs_output_path
                 config_file (get_conda_env env w)")
  obtain r3 w3 where body:
    "(case r2 of Inl e \<Rightarrow> (Inl e, w2)
      | Inr command' \<Rightarrow>
          execute_command env tool_name command' abs_output_path
            (effective_timeout tool_name timeout) w2) = (r3, w3)"
    by (cases "(case r2 of Inl e \<Rightarrow> (Inl e, w2)
      | Inr command' \<Rightarrow>
          execute_command env tool_name command' abs_output_path
            (effective_timeout tool_name timeout) w2)")
  have "run_subprocess_command env tool_name command abs_input_path abs_output_path config_file
          timeout w = restore_cwd (cwd w) (r3, w3)"
    by (simp only: run_subprocess_command_unfold [OF rel] body)
  moreover have "cwd (snd (restore_cwd (cwd w) (r3, w3))) = cwd w"
    using restore_after_body [OF rel body assms] by (rule conjunct2)
  ultimately show ?thesis by (simp only:)
qed

text \<open>The MGLTools path on a timeout: the process ran in \<^verbatim>\<open>/data\<close>, the call raises
  \<^verbatim>\<open>TimeoutExpired\<close>, and the working directory is \<^verbatim>\<open>/work\<close> again.\<close>

theorem working_directory_restored_witness:
  "cwd_ok demo_world
   \<and> fst (run_subprocess_command probe_env ''MGLTools'' ''true'' ''/data/rec.pdb''
            ''/data/rec.pdbqt'' (Some ''/work/config.json'') None demo_world) = Inl TimeoutExpired
   \<and> ''/data/ran_here'' \<in> files (snd (run_subprocess_command probe_env ''MGLTools'' ''true''
            ''/data/rec.pdb'' ''/data/rec.pdbqt'' (Some ''/work/config.json'') None demo_world))
   \<and> cwd (snd (run_subprocess_command probe_env ''MGLTools'' ''true'' ''/data/rec.pdb''
            ''/data/rec.pdbqt'' (Some ''/work/config.json'') None demo_world)) = ''/work''"
proof -
  have ok: "''MGLTools'' = ''MGLTools'' \<longrightarrow> cwd_ok demo_world" by (simp add: demo_cwd_ok)
  have "cwd demo_world = ''/work''" by (simp add: demo_world_def)
  with working_directory_restored [OF ok] demo_cwd_ok show ?thesis
    by (simp add: probe_run)
qed

subsection \<open>C6: an input path that does not exist\<close>

text \<open>A missing input ends \<open>run_program\<close> at line 234, before anything is run and with the
  world untouched; the exception is that of \<^verbatim>\<open>_check_if_file_exists\<close>.\<close>

lemma missing_input_fails_fast:
  assumes "\<not> os_path_exists w (os_path_abspath w input_path)"
  shows "\<exists>e. run_program env tool_name input_path output_path pH_value config_file timeout w
              = (Inl e, w)
            \<and> (e = FileNotFoundError \<or> e = NotADirectoryError)"
  using assms
  by (auto simp: run_program_def check_if_file_exists_def os_listdir_def Let_def)

text \<open>
  Claim C6 says that a call with an input path that does not exist fails with the
  input-file-not-found error before any process is spawned. No process is spawned, but
  the error is another one where the containing directory cannot be listed: for an
  input path under the regular file \<^verbatim>\<open>/data/notes.txt\<close> the unguarded \<^verbatim>\<open>os.listdir\<close>
  of line 24 raises \<^verbatim>\<open>NotADirectoryError\<close> and line 26 is not reached.
\<close>

theorem missing_input_other_error:
  "\<not> os_path_exists demo_world ''/data/notes.txt/rec.pdb''
   \<and> run_program quiet_env ''MGLTools'' ''/data/notes.txt/rec.pdb'' ''/data/rec.pdbqt'' ''7.4''
        (Some ''/work/config.json'') None demo_world
     = (Inl NotADirectoryError, demo_world)
   \<and> NotADirectoryError \<noteq> FileNotFoundError"
  by (simp add: path_defs os_defs handler_defs demo_defs Let_def)

subsection \<open>C7: a tool name outside the four\<close>

text \<open>
  Claim C7, amended. For a tool name other than the four, no command is built
  (\<open>construct_shell_command\<close> returns \<^verbatim>\<open>None\<close>) and \<open>run_program\<close> raises without running
  anything: it leaves the world as it found it. The exception is the \<^verbatim>\<open>ValueError\<close> of
  line 268 whenever the input file exists; the check of line 234 comes first.
\<close>

theorem unsupported_tool_fails:
  assumes "tool_name \<notin> {''MGLTools'', ''OpenBabel'', ''MolProbity'', ''PDB2PQR''}"
  shows "construct_shell_command env w' tool_name abs_input_path abs_output_path pH_value
             config_file = Inr None
         \<and> (\<exists>e. run_program env tool_name input_path output_path pH_value config_file timeout w
                  = (Inl e, w))
         \<and> (os_path_exists w (os_path_abspath w input_path) \<longrightarrow>
              run_program env tool_name input_path output_path pH_value config_file timeout w
                = (Inl ValueError, w))"
proof -
  have none: "construct_shell_command env w' tool_name i out p cfg = Inr None" for w' i out p cfg
    using assms by (simp add: construct_shell_command_def Let_def)
  have build: "build_and_run env tool_name i out p cfg t ext tmp w = (Inl ValueError, w)"
    for i out p cfg t ext tmp
    by (simp add: build_and_run_def none)
  have run: "run_program env tool_name input_path output_path pH_value config_file timeout w
      = (case check_if_file_exists w (os_path_abspath w input_path) of
           Inl e \<Rightarrow> (Inl e, w) | Inr _ \<Rightarrow> (Inl ValueError, w))"
    using assms by (simp add: run_program_def Let_def build split: sum.splits)
  have "\<exists>e. run_program env tool_name input_path output_path pH_value config_file timeout w
                  = (Inl e, w)"
    unfolding run by (cases "check_if_file_exists w (os_path_abspath w input_path)") simp_all
  moreover have "run_program env tool_name input_path output_path pH_value config_file timeout w
                = (Inl ValueError, w)"
    if "os_path_exists w (os_path_abspath w input_path)"
    unfolding run using that by (simp add: check_if_file_exists_def)
  ultimately show ?thesis using none by blast
qed

text \<open>A tool named \<^verbatim>\<open>Vina\<close> on an existing input: \<^verbatim>\<open>ValueError\<close>, nothing run.\<close>

theorem unsupported_tool_fails_witness:
  "''Vina'' \<notin> {''MGLTools'', ''OpenBabel'', ''MolProbity'', ''PDB2PQR''}
   \<and> os_path_exists demo_world (os_path_abspath demo_world ''/data/rec.pdb'')
   \<and> construct_shell_command quiet_env demo_world ''Vina'' ''/data/rec.pdb'' ''/data/rec.pdbqt''
        ''7.4'' None = Inr None
   \<and> run_program quiet_env ''Vina'' ''/data/rec.pdb'' ''/data/rec.pdbqt'' ''7.4'' None None
        demo_world = (Inl ValueError, demo_world)"
proof -
  have t: "''Vina'' \<notin> {''MGLTools'', ''OpenBabel'', ''MolProbity'', ''PDB2PQR''}" by simp
  have p: "os_path_exists demo_world (os_path_abspath demo_world ''/data/rec.pdb'')"
    by (simp add: os_path_exists_def path_defs demo_world_def)
  from unsupported_tool_fails [OF t, of quiet_env demo_world "''/data/rec.pdb''"
      "''/data/rec.pdbqt''" "''7.4''" None "''/data/rec.pdb''" "''/data/rec.pdbqt''" None
      demo_world] t p
  show ?thesis by blast
qed

text \<open>The claim as it stands fails where the input file is missing: the same tool name on
  a missing input raises \<^verbatim>\<open>FileNotFoundError\<close>, not the \<^verbatim>\<open>ValueError\<close> of an
  unconstructed command.\<close>

theorem unsupported_tool_counterexample:
  "''Vina'' \<notin> {''MGLTools'', ''OpenBabel'', ''MolProbity'', ''PDB2PQR''}
   \<and> run_program quiet_env ''Vina'' ''/data/missing.pdb'' ''/data/rec.pdbqt'' ''7.4'' None None
        demo_world = (Inl FileNotFoundError, demo_world)
   \<and> FileNotFoundError \<noteq> ValueError"
  by (simp add: path_defs os_defs handler_defs demo_defs Let_def)

subsection \<open>C8: the timeout\<close>

text \<open>
  Claim C8. The process of the tool is run with a timeout of 1800 seconds for PDB2PQR and
  of 300 seconds for every other tool when the caller gives none, and with the caller's
  timeout otherwise. The log after \<^verbatim>\<open>_run_subprocess_command\<close> is the log after
  \<open>get_conda_env\<close> (whose probe, if it runs one, has no timeout) followed by exactly one
  entry, the command with that timeout: for every tool but MGLTools the command given,
  for MGLTools the command built after the change of directory. Where that step fails,
  nothing is run.
\<close>

theorem timeout_of_tool_process:
  "(tool_name \<noteq> ''MGLTools'' \<longrightarrow>
      spawned (snd (run_subprocess_command env tool_name command abs_input_path abs_output_path
                      config_file timeout w))
      = spawned (get_conda_env env w)
        @ [(command, Some (case timeout of
                             None \<Rightarrow> if tool_name = ''PDB2PQR'' then 1800 else 300
                           | Some t \<Rightarrow> t))])
   \<and> (\<forall>c w2. relocate_for_mgltools env tool_name command abs_input_path abs_output_path
                config_file (get_conda_env env w) = (Inr (Some c), w2) \<longrightarrow>
      spawned (snd (run_subprocess_command env tool_name command abs_input_path abs_output_path
                      config_file timeout w))
      = spawned (get_conda_env env w)
        @ [(c, Some (case timeout of
                       None \<Rightarrow> if tool_name = ''PDB2PQR'' then 1800 else 300
                     | Some t \<Rightarrow> t))])
   \<and> (\<forall>e w2. relocate_for_mgltools env tool_name command abs_input_path abs_output_path
                config_file (get_conda_env env w) = (Inl e, w2) \<longrightarrow>
      spawned (snd (run_subprocess_command env tool_name command abs_input_path abs_output_path
                      config_file timeout w))
      = spawned (get_conda_env env w))"
proof -
  let ?T = "case timeout of None \<Rightarrow> if tool_name = ''PDB2PQR'' then 1800 else 300 | Some t \<Rightarrow> t"
  let ?run = "run_subprocess_command env tool_name command abs_input_path abs_output_path
                config_file timeout w"
  let ?w1 = "get_conda_env env w"
  have T: "effective_timeout tool_name timeout = ?T"
    by (simp add: effective_timeout_def)
  have main: "spawned (snd ?run) = spawned ?w1 @ [(c, Some ?T)]"
    if rel: "relocate_for_mgltools env tool_name command abs_input_path abs_output_path
               config_file ?w1 = (Inr (Some c), w2)" for c w2
  proof -
    obtain r3 w3 where run: "subprocess_run env c (Some ?T) w2 = (r3, w3)"
      by (cases "subprocess_run env c (Some ?T) w2")
    have "snd (execute_command env tool_name (Some c) abs_output_path ?T w2) = w3"
      using run by (cases r3) (simp_all add: execute_command_def)
    then obtain r4 where
      ex: "execute_command env tool_name (Some c) abs_output_path ?T w2 = (r4, w3)"
      by (cases "execute_command env tool_name (Some c) abs_output_path ?T w2") simp
    have "spawned w3 = spawned ?w1 @ [(c, Some ?T)]"
      using subprocess_run_frame [OF run] relocate_frame [OF rel] by simp
    then show ?thesis
      using ex by (simp add: run_subprocess_command_unfold [OF rel] T restore_cwd_spawned)
  qed
  have fail: "spawned (snd ?run) = spawned ?w1"
    if rel: "relocate_for_mgltools env tool_name command abs_input_path abs_output_path
               config_file ?w1 = (Inl e, w2)" for e w2
    using relocate_frame [OF rel]
    by (simp add: run_subprocess_command_unfold [OF rel] restore_cwd_spawned)
  show ?thesis
    using main fail relocate_other [of tool_name env command abs_input_path abs_output_path
        config_file ?w1]
    by blast
qed

lemma mgl_relocate:
  "relocate_for_mgltools quiet_env ''MGLTools'' ''true'' ''/data/rec.pdb'' ''/data/rec.pdbqt''
       (Some ''/work/config.json'') demo_world
   = (Inr (Some (mgl_command ''rec.pdb'' ''rec.pdbqt'' [])), demo_world\<lparr>cwd := ''/data''\<rparr>)"
  by (simp add: path_defs os_defs handler_defs demo_defs Let_def)

text \<open>PDB2PQR without a timeout, OpenBabel without a timeout, PDB2PQR with the timeout 42,
  and MGLTools without a timeout.\<close>

theorem timeout_of_tool_process_witness:
  "spawned (snd (run_subprocess_command quiet_env ''PDB2PQR'' ''pdb2pqr30 a.pdb a.pqr''
       ''/data/rec.pdb'' ''/data/rec.pqr'' None None demo_world))
     = [(''pdb2pqr30 a.pdb a.pqr'', Some 1800)]
   \<and> spawned (snd (run_subprocess_command quiet_env ''OpenBabel'' ''obabel a.pdb''
       ''/data/rec.pdb'' ''/data/rec.mol2'' None None demo_world))
     = [(''obabel a.pdb'', Some 300)]
   \<and> spawned (snd (run_subprocess_command quiet_env ''PDB2PQR'' ''pdb2pqr30 a.pdb a.pqr''
       ''/data/rec.pdb'' ''/data/rec.pqr'' None (Some 42) demo_world))
     = [(''pdb2pqr30 a.pdb a.pqr'', Some 42)]
   \<and> spawned (snd (run_subprocess_command quiet_env ''MGLTools'' ''true''
       ''/data/rec.pdb'' ''/data/rec.pdbqt'' (Some ''/work/config.json'') None demo_world))
     = [(mgl_command ''rec.pdb'' ''rec.pdbqt'' [], Some 300)]"
proof -
  have s: "spawned demo_world = []" by (simp add: demo_world_def)
  have "spawned (snd (run_subprocess_command quiet_env ''PDB2PQR'' ''pdb2pqr30 a.pdb a.pqr''
       ''/data/rec.pdb'' ''/data/rec.pqr'' None None demo_world))
     = [(''pdb2pqr30 a.pdb a.pqr'', Some 1800)]"
    using timeout_of_tool_process [of "''PDB2PQR''" quiet_env "''pdb2pqr30 a.pdb a.pqr''"
        "''/data/rec.pdb''" "''/data/rec.pqr''" None None demo_world]
    by (simp add: quiet_no_probe s)
  moreover have "spawned (snd (run_subprocess_command quiet_env ''OpenBabel'' ''obabel a.pdb''
       ''/data/rec.pdb'' ''/data/rec.mol2'' None None demo_world))
     = [(''obabel a.pdb'', Some 300)]"
    using timeout_of_tool_process [of "''OpenBabel''" quiet_env "''obabel a.pdb''"
        "''/data/rec.pdb''" "''/data/rec.mol2''" None None demo_world]
    by (simp add: quiet_no_probe s)
  moreover have "spawned (snd (run_subprocess_command quiet_env ''PDB2PQR''
       ''pdb2pqr30 a.pdb a.pqr'' ''/data/rec.pdb'' ''/data/rec.pqr'' None (Some 42) demo_world))
     = [(''pdb2pqr30 a.pdb a.pqr'', Some 42)]"
    using timeout_of_tool_process [of "''PDB2PQR''" quiet_env "''pdb2pqr30 a.pdb a.pqr''"
        "''/data/rec.pdb''" "''/data/rec.pqr''" None "Some 42" demo_world]
    by (simp add: quiet_no_probe s)
  moreover have "spawned (snd (run_subprocess_command quiet_env ''MGLTools'' ''true''
       ''/data/rec.pdb'' ''/data/rec.pdbqt'' (Some ''/work/config.json'') None demo_world))
     = [(mgl_command ''rec.pdb'' ''rec.pdbqt'' [], Some 300)]"
    using timeout_of_tool_process [of "''MGLTools''" quiet_env "''true''"
        "''/data/rec.pdb''" "''/data/rec.pdbqt''" "Some ''/work/config.json''" None demo_world]
      mgl_relocate
    by (simp add: quiet_no_probe s)
  ultimately show ?thesis by blast
qed

subsection \<open>C9: the PDB2PQR command\<close>

text \<open>
  Claim C9. For PDB2PQR the command is the fixed line below: it holds the caller's pH
  after \<^verbatim>\<open>--with-ph\<close>, the force field flag \<^verbatim>\<open>--ff AMBER\<close> and the titration flag
  \<^verbatim>\<open>--titration-state-method propka\<close>; for the paths \<^verbatim>\<open>a.pdb\<close> and \<^verbatim>\<open>a.pqr\<close> and the
  pH 6.5 it holds \<^verbatim>\<open>--with-ph 6.5\<close>. (\<open>pH_value\<close> is the pH as the f-string prints it.)
\<close>

theorem pdb2pqr_command:
  "construct_shell_command env w ''PDB2PQR'' abs_input_path abs_output_path pH_value config_file
     = Inr (Some (''pdb2pqr30 --ff AMBER --keep-chain --titration-state-method propka''
                  @ '' --with-ph '' @ pH_value @ '' '' @ abs_input_path @ '' '' @ abs_output_path))
   \<and> (\<exists>c. construct_shell_command env w ''PDB2PQR'' abs_input_path abs_output_path pH_value
             config_file = Inr (Some c)
          \<and> sublist (''--with-ph '' @ pH_value) c
          \<and> sublist ''--ff AMBER'' c
          \<and> sublist ''--titration-state-method propka'' c)
   \<and> construct_shell_command env w ''PDB2PQR'' ''a.pdb'' ''a.pqr'' ''6.5'' None
     = Inr (Some (''pdb2pqr30 --ff AMBER --keep-chain --titration-state-method propka''
                  @ '' --with-ph 6.5 a.pdb a.pqr''))
   \<and> sublist ''--with-ph 6.5''
        (''pdb2pqr30 --ff AMBER --keep-chain --titration-state-method propka''
         @ '' --with-ph 6.5 a.pdb a.pqr'')"
proof -
  let ?c = "''pdb2pqr30 --ff AMBER --keep-chain --titration-state-method propka''
            @ '' --with-ph '' @ pH_value @ '' '' @ abs_input_path @ '' '' @ abs_output_path"
  have eq: "construct_shell_command env w ''PDB2PQR'' i out p cfg
     = Inr (Some (''pdb2pqr30 --ff AMBER --keep-chain --titration-state-method propka''
                  @ '' --with-ph '' @ p @ '' '' @ i @ '' '' @ out))" for i out p cfg
    by (simp add: construct_shell_command_def Let_def)
  have s1: "sublist (''--with-ph '' @ pH_value) ?c"
    unfolding sublist_def
    by (rule exI [of _ "''pdb2pqr30 --ff AMBER --keep-chain --titration-state-method propka ''"],
        rule exI [of _ "'' '' @ abs_input_path @ '' '' @ abs_output_path"]) simp
  have s2: "sublist ''--ff AMBER'' ?c"
    unfolding sublist_def
    by (rule exI [of _ "''pdb2pqr30 ''"],
        rule exI [of _ "'' --keep-chain --titration-state-method propka --with-ph '' @ pH_value
                        @ '' '' @ abs_input_path @ '' '' @ abs_output_path"]) simp
  have s3: "sublist ''--titration-state-method propka'' ?c"
    unfolding sublist_def
    by (rule exI [of _ "''pdb2pqr30 --ff AMBER --keep-chain ''"],
        rule exI [of _ "'' --with-ph '' @ pH_value @ '' '' @ abs_input_path @ '' ''
                        @ abs_output_path"]) simp
  have s4: "sublist ''--with-ph 6.5''
        (''pdb2pqr30 --ff AMBER --keep-chain --titration-state-method propka''
         @ '' --with-ph 6.5 a.pdb a.pqr'')"
    unfolding sublist_def
    by (rule exI [of _ "''pdb2pqr30 --ff AMBER --keep-chain --titration-state-method propka ''"],
        rule exI [of _ "'' a.pdb a.pqr''"]) simp
  have e1: "construct_shell_command env w ''PDB2PQR'' ''a.pdb'' ''a.pqr'' ''6.5'' None
     = Inr (Some (''pdb2pqr30 --ff AMBER --keep-chain --titration-state-method propka''
                  @ '' --with-ph 6.5 a.pdb a.pqr''))"
    using eq [of "''a.pdb''" "''a.pqr''" "''6.5''" None] by simp
  show ?thesis
    using eq [of abs_input_path abs_output_path pH_value config_file] s1 s2 s3 s4 e1
    by blast
qed

subsection \<open>C10: a failed conversion of the PQR input\<close>

lemma preconvert_failed:
  assumes "subprocess_run env (obabel_command a t) None w = (r, w')"
      and "r \<noteq> Exited 0 \<or> \<not> os_path_exists w' t"
  shows "preconvert_pqr env a t w = (a, w')"
  using assms by (cases r) (auto simp: preconvert_pqr_def)

lemma failed_conversion_run:
  "build_and_run failing_conversion_env ''MGLTools'' ''/data/rec.pqr'' ''/data/rec.pdbqt'' ''7.4''
       (Some ''/work/config.json'') None ''pqr'' ''/data/rec_temp.pdb''
       (demo_world\<lparr>spawned := [(''obabel -ipqr /data/rec.pqr -opdb -O /data/rec_temp.pdb'', None)]\<rparr>)
   = (Inr True,
      demo_world\<lparr>files := insert ''/data/rec.pdbqt'' (files demo_world),
                 spawned := [(''obabel -ipqr /data/rec.pqr -opdb -O /data/rec_temp.pdb'', None),
                             (mgl_command ''rec.pqr'' ''rec.pdbqt'' '' -C -U nphs_lps'',
                              Some 300)]\<rparr>)"
  by (simp add: path_defs os_defs handler_defs demo_defs Let_def insert_commute)

text \<open>
  Claim C10. Let MGLTools be called on an existing input with the extension \<^verbatim>\<open>pqr\<close>, and
  let the conversion to PDB fail: the converter does not exit with status 0 (or cannot be
  run), or the temporary PDB file does not exist after it. Then the conversion raises
  nothing: \<open>run_program\<close> goes on, in the world the converter left, to build and run the
  command for the original PQR path, and what it returns or raises is what that returns
  or raises.
\<close>

theorem failed_preconversion_keeps_pqr_input:
  assumes present: "os_path_exists w (os_path_abspath w input_path)"
      and pqr: "file_ext (os_path_abspath w input_path) = ''pqr''"
      and run: "subprocess_run env
                  (obabel_command (os_path_abspath w input_path)
                     (str_replace ''.pqr'' ''_temp.pdb'' (os_path_abspath w input_path)))
                  None w = (r, w')"
      and failed: "r \<noteq> Exited 0
                   \<or> \<not> os_path_exists w'
                          (str_replace ''.pqr'' ''_temp.pdb'' (os_path_abspath w input_path))"
  shows "run_program env ''MGLTools'' input_path output_path pH_value config_file timeout w
         = build_and_run env ''MGLTools'' (os_path_abspath w input_path)
             (os_path_abspath w output_path) pH_value config_file timeout ''pqr''
             (str_replace ''.pqr'' ''_temp.pdb'' (os_path_abspath w input_path)) w'
         \<and> spawned w' = spawned w
             @ [(obabel_command (os_path_abspath w input_path)
                   (str_replace ''.pqr'' ''_temp.pdb'' (os_path_abspath w input_path)), None)]"
proof -
  have "check_if_file_exists w (os_path_abspath w input_path) = Inr True"
    using present by (simp add: check_if_file_exists_def)
  then show ?thesis
    using pqr preconvert_failed [OF run failed] subprocess_run_frame [OF run]
    by (simp add: run_program_def Let_def)
qed

text \<open>The converter exits with status 1: the receptor preparation is run on
  \<^verbatim>\<open>rec.pqr\<close>, with the flags of a PQR input, and the call returns \<^verbatim>\<open>True\<close>.\<close>

theorem failed_preconversion_keeps_pqr_input_witness:
  "os_path_exists demo_world (os_path_abspath demo_world ''/data/rec.pqr'')
   \<and> file_ext (os_path_abspath demo_world ''/data/rec.pqr'') = ''pqr''
   \<and> fst (subprocess_run failing_conversion_env
             (obabel_command ''/data/rec.pqr'' ''/data/rec_temp.pdb'') None demo_world)
       = Exited 1
   \<and> run_program failing_conversion_env ''MGLTools'' ''/data/rec.pqr'' ''/data/rec.pdbqt'' ''7.4''
        (Some ''/work/config.json'') None demo_world
     = (Inr True,
        demo_world\<lparr>files := insert ''/data/rec.pdbqt'' (files demo_world),
                   spawned := [(''obabel -ipqr /data/rec.pqr -opdb -O /data/rec_temp.pdb'', None),
                               (mgl_command ''rec.pqr'' ''rec.pdbqt'' '' -C -U nphs_lps'',
                                Some 300)]\<rparr>)"
proof -
  have a: "os_path_abspath demo_world ''/data/rec.pqr'' = ''/data/rec.pqr''"
    and b: "os_path_abspath demo_world ''/data/rec.pdbqt'' = ''/data/rec.pdbqt''"
    by (simp_all add: path_defs)
  have t: "str_replace ''.pqr'' ''_temp.pdb'' ''/data/rec.pqr'' = ''/data/rec_temp.pdb''"
    by simp
  have present: "os_path_exists demo_world (os_path_abspath demo_world ''/data/rec.pqr'')"
    by (simp add: os_path_exists_def path_defs demo_world_def)
  have pqr: "file_ext (os_path_abspath demo_world ''/data/rec.pqr'') = ''pqr''"
    by (simp add: path_defs)
  have run: "subprocess_run failing_conversion_env
               (obabel_command (os_path_abspath demo_world ''/data/rec.pqr'')
                  (str_replace ''.pqr'' ''_temp.pdb''
                     (os_path_abspath demo_world ''/data/rec.pqr'')))
               None demo_world
             = (Exited 1,
                demo_world\<lparr>spawned :=
                  [(''obabel -ipqr /data/rec.pqr -opdb -O /data/rec_temp.pdb'', None)]\<rparr>)"
    unfolding a t
    by (simp add: subprocess_run_def obabel_command_def demo_defs)
  have failed: "Exited 1 \<noteq> Exited 0 \<or> \<not> os_path_exists
      (demo_world\<lparr>spawned := [(''obabel -ipqr /data/rec.pqr -opdb -O /data/rec_temp.pdb'', None)]\<rparr>)
      (str_replace ''.pqr'' ''_temp.pdb'' (os_path_abspath demo_world ''/data/rec.pqr''))"
    by simp
  from failed_preconversion_keeps_pqr_input [OF present pqr run failed,
      of "''/data/rec.pdbqt''" "''7.4''" "Some ''/work/config.json''" None]
  have "run_program failing_conversion_env ''MGLTools'' ''/data/rec.pqr'' ''/data/rec.pdbqt''
          ''7.4'' (Some ''/work/config.json'') None demo_world
        = (Inr True,
        demo_world\<lparr>files := insert ''/data/rec.pdbqt'' (files demo_world),
                   spawned := [(''obabel -ipqr /data/rec.pqr -opdb -O /data/rec_temp.pdb'', None),
                               (mgl_command ''rec.pqr'' ''rec.pdbqt'' '' -C -U nphs_lps'',
                                Some 300)]\<rparr>)"
    unfolding a b t by (simp add: failed_conversion_run)
  moreover have "fst (subprocess_run failing_conversion_env
             (obabel_command ''/data/rec.pqr'' ''/data/rec_temp.pdb'') None demo_world)
       = Exited 1"
    using run unfolding a t by simp
  ultimately show ?thesis using present pqr by blast
qed

end
